theory Spec2Isabelle
  imports Complex_Main "HOL-Library.Sublist"
begin

section \<open>The LinkedIn post generator (app1.py)\<close>

text \<open>
  The program is a Streamlit page with two click handlers, \<^verbatim>\<open>generate_text\<close> and
  \<^verbatim>\<open>generate_image\<close>, that read and write the fields of \<^verbatim>\<open>st.session_state\<close> and call
  the methods of an \<^verbatim>\<open>oai.Openai\<close> object. The handlers are embedded as functions that
  take the session state and return the exit they left through, the state they leave
  behind and the list of client calls they made, in order. Logging and the spinner
  widgets write nothing that the handlers read back and are left out.

  Strings are lists of characters; a character stands for one code point below 256.
\<close>

subsection \<open>Session state (lines 96 to 107)\<close>

record session_state =
  post :: string
  image_url :: string
  text_error :: string
  image_error :: string
  feeling_lucky :: bool
  n_requests :: int

text \<open>The field \<^verbatim>\<open>image\<close> of the source is \<open>image_url\<close> here.
  The state of a fresh session, after the six \<^verbatim>\<open>if ... not in st.session_state\<close>
  initialisations:\<close>

definition init_state :: session_state where
  "init_state =
     \<lparr>post = [], image_url = [], text_error = [], image_error = [],
      feeling_lucky = False, n_requests = 0\<rparr>"

subsection \<open>The generation client\<close>

text \<open>
  The module \<^verbatim>\<open>oai\<close> is not part of the sources; the handlers use three methods of
  the object \<^verbatim>\<open>oai.Openai()\<close> that each of them builds afresh. The object is a
  parameter of the model. The methods are taken through their interface: a method
  either returns a value or raises, so its result is a sum with the exception on the
  left, and it does not write the session state. \<^verbatim>\<open>complete\<close> is called with its defaults by
  \<^verbatim>\<open>generate_text\<close> and with \<^verbatim>\<open>temperature=0.5, max_tokens=200\<close> by
  \<^verbatim>\<open>generate_image\<close>.
\<close>

datatype client_error = ApiError string

datatype completion_params = Default_params | Params rat nat

record client =
  oai_moderate :: "string \<Rightarrow> client_error + bool"
  oai_complete :: "string \<Rightarrow> completion_params \<Rightarrow> client_error + string"
  oai_image :: "string \<Rightarrow> client_error + string"

datatype call =
    Call_moderate string
  | Call_complete string completion_params
  | Call_image string

text \<open>
  The ways a handler run ends: the three \<^verbatim>\<open>return\<close> statements (request limit, empty
  topic, flagged prompt), the end of the body, and an exception of a client method that
  nothing in the handler catches.
\<close>

datatype outcome =
    RateLimited
  | EmptyTopic
  | Flagged
  | Done
  | Raised client_error

subsection \<open>String operations of the Python library\<close>

text \<open>\<^verbatim>\<open>str.isspace\<close>, on the code points below 256.\<close>

definition is_space :: "char \<Rightarrow> bool" where
  "is_space c =
     (let n = (of_char c :: nat)
      in (9 \<le> n \<and> n \<le> 13) \<or> (28 \<le> n \<and> n \<le> 32) \<or> n = 133 \<or> n = 160)"

text \<open>\<^verbatim>\<open>s.strip()\<close>: whitespace is dropped at both ends.\<close>

definition strip :: "string \<Rightarrow> string" where
  "strip s = rev (dropWhile is_space (rev (dropWhile is_space s)))"

text \<open>\<^verbatim>\<open>s.replace('"', "")\<close>: every double quote is deleted.\<close>

definition remove_quotes :: "string \<Rightarrow> string" where
  "remove_quotes s = filter (\<lambda>c. c \<noteq> CHR 0x22) s"

text \<open>\<^verbatim>\<open>s.split(".")[0]\<close>: the part of \<open>s\<close> before its first full stop, all of
  \<open>s\<close> when it has none.\<close>

definition split_dot_first :: "string \<Rightarrow> string" where
  "split_dot_first s = takeWhile (\<lambda>c. c \<noteq> CHR ''.'') s"

text \<open>The character class \<^verbatim>\<open>[A-Za-z0-9_]\<close>.\<close>

definition is_word :: "char \<Rightarrow> bool" where
  "is_word c =
     (let n = (of_char c :: nat)
      in (65 \<le> n \<and> n \<le> 90) \<or> (97 \<le> n \<and> n \<le> 122) \<or> (48 \<le> n \<and> n \<le> 57) \<or> n = 95)"

text \<open>
  \<^verbatim>\<open>re.sub("#[A-Za-z0-9_]+", "", prompt)\<close>: the scan goes from left to right; where a
  \<^verbatim>\<open>#\<close> is followed by a word character the longest run of word characters is
  consumed with it (the \<^verbatim>\<open>+\<close> is greedy) and replaced by nothing, and the scan
  goes on behind the match; any other character is copied.
\<close>

function re_sub_hashtags :: "string \<Rightarrow> string" where
  "re_sub_hashtags [] = []"
| "re_sub_hashtags (c # cs) =
     (if c = CHR ''#'' \<and> cs \<noteq> [] \<and> is_word (hd cs)
      then re_sub_hashtags (dropWhile is_word cs)
      else c # re_sub_hashtags cs)"
  by pat_completeness auto
termination
  by (relation "measure length") (auto simp: length_dropWhile_le less_Suc_eq_le)

subsection \<open>Prompts\<close>

text \<open>Lines 40 and 41: the prompt of \<^verbatim>\<open>generate_text\<close>.\<close>

definition style_prompt :: "string \<Rightarrow> string" where
  "style_prompt style = (if style \<noteq> [] then style @ '' '' else [])"

definition text_prompt :: "string \<Rightarrow> string \<Rightarrow> string" where
  "text_prompt topic style =
     ''Write a '' @ style_prompt style
       @ '' LinkedIn Post about the Snowflake data platform feature '' @ topic
       @ '':\<newline>\<newline> include the hashtags datasuperhero and masteringsnowflake''"

text \<open>Lines 74 to 78: the prompt \<^verbatim>\<open>generate_image\<close> sends to \<^verbatim>\<open>complete\<close>.\<close>

definition processing_prompt :: "string \<Rightarrow> string" where
  "processing_prompt prompt =
     ''In less than 300 words create a detailed but brief description of an image that captures ''
       @ ''the essence of the following text:\<newline>'' @ re_sub_hashtags prompt
       @ ''\<newline>\<newline>''"

text \<open>Lines 83 to 86: what is made of the reply before it goes to \<^verbatim>\<open>image\<close>.\<close>

definition processed_prompt :: "string \<Rightarrow> string" where
  "processed_prompt reply = split_dot_first (remove_quotes (strip reply)) @ ''.''"

subsection \<open>The handlers\<close>

definition generate_text ::
  "client \<Rightarrow> string \<Rightarrow> string \<Rightarrow> session_state \<Rightarrow> outcome \<times> session_state \<times> call list" where
  "generate_text openai topic style s =
     (if n_requests s \<ge> 5 then
        (RateLimited,
         s\<lparr>text_error :=
              ''Too many requests. Please wait a few seconds before generating another post.'',
           n_requests := 1\<rparr>,
         [])
      else
        let s1 = s\<lparr>post := [], image_url := [], text_error := []\<rparr> in
        if topic = [] then (EmptyTopic, s1\<lparr>text_error := ''Please enter a topic''\<rparr>, [])
        else
          let prompt = text_prompt topic style in
          (case oai_moderate openai prompt of
             Inl e \<Rightarrow> (Raised e, s1, [Call_moderate prompt])
           | Inr flagged \<Rightarrow>
               if flagged then
                 (Flagged, s1\<lparr>text_error := ''Input flagged as inappropriate.''\<rparr>,
                  [Call_moderate prompt])
               else
                 let s2 = s1\<lparr>text_error := [], n_requests := n_requests s1 + 1\<rparr> in
                 (case oai_complete openai prompt Default_params of
                    Inl e \<Rightarrow>
                      (Raised e, s2, [Call_moderate prompt, Call_complete prompt Default_params])
                  | Inr reply \<Rightarrow>
                      (Done, s2\<lparr>post := remove_quotes (strip reply)\<rparr>,
                       [Call_moderate prompt, Call_complete prompt Default_params]))))"

definition generate_image ::
  "client \<Rightarrow> string \<Rightarrow> session_state \<Rightarrow> outcome \<times> session_state \<times> call list" where
  "generate_image openai prompt s =
     (if n_requests s \<ge> 5 then
        (RateLimited,
         s\<lparr>text_error :=
              ''Too many requests. Please wait a few seconds before generating another text or image.'',
           n_requests := 1\<rparr>,
         [])
      else
        let pp = processing_prompt prompt; ps = Params (1 / 2) 200 in
        (case oai_complete openai pp ps of
           Inl e \<Rightarrow> (Raised e, s, [Call_complete pp ps])
         | Inr reply \<Rightarrow>
             let s1 = s\<lparr>n_requests := n_requests s + 1\<rparr> in
             (case oai_image openai (processed_prompt reply) of
                Inl e \<Rightarrow> (Raised e, s1, [Call_complete pp ps, Call_image (processed_prompt reply)])
              | Inr url \<Rightarrow>
                  (Done, s1\<lparr>image_url := url\<rparr>,
                   [Call_complete pp ps, Call_image (processed_prompt reply)]))))"

subsection \<open>Sessions\<close>

text \<open>
  What happens to the session state during a session: a click runs one of the two
  handlers, and a run of the page script assigns \<^verbatim>\<open>feeling_lucky\<close> (line 167,
  \<^verbatim>\<open>not st.button(...)\<close>, the button returning whether "Generate text" was clicked).
  Every click comes with the client object its handler builds.
\<close>

datatype event =
    Click_text client string string
  | Click_image client string
  | Script_run bool

fun step :: "event \<Rightarrow> session_state \<Rightarrow> outcome list \<times> session_state" where
  "step (Click_text openai topic style) s =
     (case generate_text openai topic style s of (out, s', _) \<Rightarrow> ([out], s'))"
| "step (Click_image openai prompt) s =
     (case generate_image openai prompt s of (out, s', _) \<Rightarrow> ([out], s'))"
| "step (Script_run clicked) s = ([], s\<lparr>feeling_lucky := \<not> clicked\<rparr>)"

fun run_session :: "event list \<Rightarrow> session_state \<Rightarrow> outcome list \<times> session_state" where
  "run_session [] s = ([], s)"
| "run_session (e # es) s =
     (case step e s of (outs, s') \<Rightarrow>
        (case run_session es s' of (outs', s'') \<Rightarrow> (outs @ outs', s'')))"

subsection \<open>The arguments of "Regenerate text" (lines 184 to 197)\<close>

datatype py_error = IndexError

text \<open>
  \<^verbatim>\<open>random.choice(seq)\<close> is \<^verbatim>\<open>seq[self._randbelow(len(seq))]\<close> and raises
  \<^verbatim>\<open>IndexError\<close> on an empty sequence; \<open>i\<close> is the number drawn, which is below
  the length of a sequence that is not empty.
\<close>

definition random_choice :: "nat \<Rightarrow> 'a list \<Rightarrow> py_error + 'a" where
  "random_choice i xs = (if i < length xs then Inr (xs ! i) else Inl IndexError)"

text \<open>
  At lines 184 to 197 the names \<^verbatim>\<open>topic\<close> and \<^verbatim>\<open>style\<close> are bound to the values
  the two select boxes returned (lines 161 and 163), which are strings; an element of a
  Python string is a string of one character.
\<close>

definition regenerate_args ::
  "bool \<Rightarrow> string \<Rightarrow> string \<Rightarrow> nat \<Rightarrow> nat \<Rightarrow> py_error + string \<times> string" where
  "regenerate_args lucky topic style i j =
     (if lucky then
        (case random_choice i topic of
           Inl e \<Rightarrow> Inl e
         | Inr t \<Rightarrow>
             (case random_choice j style of
                Inl e \<Rightarrow> Inl e
              | Inr st \<Rightarrow> Inr ([t], [st])))
      else Inr (topic, style))"

subsection \<open>The catalog loader (lines 130 to 144)\<close>












subsection \<open>Properties of results and of strings\<close>

text \<open>A handler run that was turned down at the request limit: it left through the
  first \<^verbatim>\<open>return\<close>, with a message in \<^verbatim>\<open>text_error\<close>, the counter at 1 and no call
  of the client.\<close>

definition rate_limited :: "outcome \<times> session_state \<times> call list \<Rightarrow> bool" where
  "rate_limited r =
     (case r of (out, s', calls) \<Rightarrow>
        out = RateLimited \<and> text_error s' \<noteq> [] \<and> n_requests s' = 1 \<and> calls = [])"

text \<open>A string has a match of \<^verbatim>\<open>#[A-Za-z0-9_]+\<close> exactly when one of its
  \<^verbatim>\<open>#\<close> is followed by a word character.\<close>

fun has_hashtag :: "string \<Rightarrow> bool" where
  "has_hashtag [] = False"
| "has_hashtag (c # cs) = ((c = CHR ''#'' \<and> cs \<noteq> [] \<and> is_word (hd cs)) \<or> has_hashtag cs)"

text \<open>A string that the pattern \<^verbatim>\<open>#[A-Za-z0-9_]+\<close> matches as a whole.\<close>

definition matches_hashtag :: "string \<Rightarrow> bool" where
  "matches_hashtag m =
     (case m of [] \<Rightarrow> False | c # w \<Rightarrow> c = CHR ''#'' \<and> w \<noteq> [] \<and> list_all is_word w)"

subsection \<open>Clients, states and databases of the examples\<close>

definition client_ok :: client where
  "client_ok =
     \<lparr>oai_moderate = (\<lambda>p. Inr False),
      oai_complete = (\<lambda>p ps. Inr '' \"Snowflake\" rocks. Try it today. #datasuperhero ''),
      oai_image = (\<lambda>p. Inr ''https://img/1.png'')\<rparr>"

definition client_flagging :: client where
  "client_flagging = client_ok\<lparr>oai_moderate := (\<lambda>p. Inr True)\<rparr>"

definition client_moderate_fails :: client where
  "client_moderate_fails = client_ok\<lparr>oai_moderate := (\<lambda>p. Inl (ApiError ''timeout''))\<rparr>"

definition client_complete_fails :: client where
  "client_complete_fails = client_ok\<lparr>oai_complete := (\<lambda>p ps. Inl (ApiError ''timeout''))\<rparr>"

definition client_image_fails :: client where
  "client_image_fails = client_ok\<lparr>oai_image := (\<lambda>p. Inl (ApiError ''timeout''))\<rparr>"

text \<open>A session that has a post and an image and has reached the request limit.\<close>

definition state_at_limit :: session_state where
  "state_at_limit =
     init_state\<lparr>post := ''Snowflake rocks.'', image_url := ''https://img/0.png'',
                n_requests := 5\<rparr>"

text \<open>A session that has a post and an image and is below the limit.\<close>

definition state_with_post :: session_state where
  "state_with_post =
     init_state\<lparr>post := ''Snowflake rocks.'', image_url := ''https://img/0.png'',
                n_requests := 2\<rparr>"

definition five_clicks :: "event list" where
  "five_clicks =
     [Click_text client_ok ''Time Travel'' ''witty'', Script_run True,
      Click_image client_ok ''Snowflake rocks. #datasuperhero'', Script_run False,
      Click_text client_ok ''Time Travel'' [],
      Click_image client_ok ''Snowflake rocks.'',
      Click_text client_ok ''Search Optimization'' ''formal'']"


text \<open>A reply without quotes or surrounding whitespace.\<close>

definition client_plain :: client where
  "client_plain = client_ok\<lparr>oai_complete := (\<lambda>p ps. Inr ''A lone skier. Blue sky.'')\<rparr>"

section \<open>Properties\<close>

subsection \<open>The request limit\<close>

lemma generate_text_limit:
  "5 \<le> n_requests s \<Longrightarrow>
     generate_text openai topic style s =
       (RateLimited,
        s\<lparr>text_error :=
             ''Too many requests. Please wait a few seconds before generating another post.'',
          n_requests := 1\<rparr>, [])"
  by (simp add: generate_text_def)

lemma generate_image_limit:
  "5 \<le> n_requests s \<Longrightarrow>
     generate_image openai prompt s =
       (RateLimited,
        s\<lparr>text_error :=
             ''Too many requests. Please wait a few seconds before generating another text or image.'',
          n_requests := 1\<rparr>, [])"
  by (simp add: generate_image_def)

lemma generate_text_Done:
  "generate_text openai topic style s = (Done, s', calls) \<Longrightarrow> n_requests s' = n_requests s + 1"
  by (auto simp: generate_text_def Let_def split: if_splits sum.splits)

lemma generate_image_Done:
  "generate_image openai prompt s = (Done, s', calls) \<Longrightarrow> n_requests s' = n_requests s + 1"
  by (auto simp: generate_image_def Let_def split: if_splits sum.splits)

lemma step_Done:
  "step e s = (Done # outs, s') \<Longrightarrow> outs = [] \<and> n_requests s' = n_requests s + 1"
  by (cases e) (auto split: prod.splits dest: generate_text_Done generate_image_Done)

lemma step_outcomes: "fst (step e s) = [] \<or> (\<exists>out. fst (step e s) = [out])"
  by (cases e) (auto split: prod.splits)

lemma step_Nil: "step e s = ([], s') \<Longrightarrow> n_requests s' = n_requests s"
  by (cases e) (auto split: prod.splits)

lemma run_session_all_done:
  "fst (run_session es s) = replicate k Done \<Longrightarrow>
     n_requests (snd (run_session es s)) = n_requests s + int k"
proof (induction es arbitrary: s k)
  case Nil
  then show ?case by simp
next
  case (Cons e es)
  obtain outs s1 where st: "step e s = (outs, s1)" by (cases "step e s")
  obtain outs' s2 where rs: "run_session es s1 = (outs', s2)" by (cases "run_session es s1")
  from Cons.prems st rs have eq: "outs @ outs' = replicate k Done" by simp
  from step_outcomes [of e s] st have "outs = [] \<or> (\<exists>out. outs = [out])" by simp
  then show ?case
  proof
    assume "outs = []"
    with eq have "fst (run_session es s1) = replicate k Done" using rs by simp
    from Cons.IH [OF this] step_Nil [of e s s1] st \<open>outs = []\<close> rs show ?thesis by simp
  next
    assume "\<exists>out. outs = [out]"
    then obtain out where o: "outs = [out]" by blast
    with eq obtain k' where k: "k = Suc k'" and od: "out = Done" and r: "outs' = replicate k' Done"
      by (cases k) auto
    from r rs have "fst (run_session es s1) = replicate k' Done" by simp
    from Cons.IH [OF this] step_Done [of e s "[]" s1] st o od k rs show ?thesis by simp
  qed
qed

text \<open>
  Claim C1. A call of either handler in a state with \<open>n_requests\<close> at 5 or above leaves
  through the first \<^verbatim>\<open>return\<close>: it sets a non-empty message in \<open>text_error\<close>, sets
  \<open>n_requests\<close> to 1 and calls no method of the client. A session that starts with
  \<open>n_requests = 0\<close> and whose handler runs are exactly five, all ending at the end of the
  handler body, has \<open>n_requests = 5\<close>, so that the sixth call, of either handler, is
  turned down in this way.
\<close>

theorem sixth_call_rate_limited:
  "(5 \<le> n_requests s \<longrightarrow>
      rate_limited (generate_text openai topic style s) \<and>
      rate_limited (generate_image openai prompt s))
   \<and> (n_requests s0 = 0 \<and> fst (run_session es s0) = replicate 5 Done \<longrightarrow>
        n_requests (snd (run_session es s0)) = 5 \<and>
        rate_limited (generate_text openai topic style (snd (run_session es s0))) \<and>
        rate_limited (generate_image openai prompt (snd (run_session es s0))))"
proof -
  have a: "rate_limited (generate_text openai topic style t) \<and>
           rate_limited (generate_image openai prompt t)" if "5 \<le> n_requests t" for t
    using that by (simp add: generate_text_limit generate_image_limit rate_limited_def)
  have b: "n_requests (snd (run_session es s0)) = 5"
    if "n_requests s0 = 0" "fst (run_session es s0) = replicate 5 Done"
    using run_session_all_done [OF that(2)] that(1) by simp
  show ?thesis using a [of s] a [of "snd (run_session es s0)"] b by simp
qed

lemma five_clicks_run: "fst (run_session five_clicks init_state) = replicate 5 Done"
  by (simp add: five_clicks_def init_state_def client_ok_def generate_text_def generate_image_def Let_def numeral_eq_Suc)

theorem sixth_call_rate_limited_witness:
  "5 \<le> n_requests state_at_limit
   \<and> rate_limited (generate_text client_ok ''Time Travel'' ''witty'' state_at_limit)
   \<and> rate_limited (generate_image client_ok ''Snowflake rocks.'' state_at_limit)
   \<and> n_requests init_state = 0
   \<and> fst (run_session five_clicks init_state) = replicate 5 Done
   \<and> n_requests (snd (run_session five_clicks init_state)) = 5
   \<and> rate_limited (generate_text client_ok ''Time Travel'' ''witty'' (snd (run_session five_clicks init_state)))
   \<and> rate_limited (generate_image client_ok ''Snowflake rocks.'' (snd (run_session five_clicks init_state)))"
proof -
  have h1: "5 \<le> n_requests state_at_limit" by (simp add: state_at_limit_def init_state_def)
  have h2: "n_requests init_state = 0" by (simp add: init_state_def)
  note t1 = sixth_call_rate_limited [of state_at_limit client_ok "''Time Travel''" "''witty''" "''Snowflake rocks.''" init_state five_clicks]
  show ?thesis using h1 h2 five_clicks_run t1 by simp
qed


subsection \<open>The exits of the handlers\<close>

lemma generate_text_cases:
  "generate_text openai topic style s = (out, s', calls) \<Longrightarrow>
   (5 \<le> n_requests s \<and> out = RateLimited \<and> calls = [] \<and>
      s' = s\<lparr>text_error :=
                ''Too many requests. Please wait a few seconds before generating another post.'',
              n_requests := 1\<rparr>)
   \<or> (n_requests s < 5 \<and> topic = [] \<and> out = EmptyTopic \<and> calls = [] \<and>
      s' = s\<lparr>post := [], image_url := [], text_error := ''Please enter a topic''\<rparr>)
   \<or> (n_requests s < 5 \<and> topic \<noteq> [] \<and>
      (\<exists>e. oai_moderate openai (text_prompt topic style) = Inl e \<and> out = Raised e) \<and>
      calls = [Call_moderate (text_prompt topic style)] \<and>
      s' = s\<lparr>post := [], image_url := [], text_error := []\<rparr>)
   \<or> (n_requests s < 5 \<and> topic \<noteq> [] \<and>
      oai_moderate openai (text_prompt topic style) = Inr True \<and> out = Flagged \<and>
      calls = [Call_moderate (text_prompt topic style)] \<and>
      s' = s\<lparr>post := [], image_url := [], text_error := ''Input flagged as inappropriate.''\<rparr>)
   \<or> (n_requests s < 5 \<and> topic \<noteq> [] \<and>
      oai_moderate openai (text_prompt topic style) = Inr False \<and>
      (\<exists>e. oai_complete openai (text_prompt topic style) Default_params = Inl e \<and> out = Raised e) \<and>
      calls = [Call_moderate (text_prompt topic style),
               Call_complete (text_prompt topic style) Default_params] \<and>
      s' = s\<lparr>post := [], image_url := [], text_error := [], n_requests := n_requests s + 1\<rparr>)
   \<or> (n_requests s < 5 \<and> topic \<noteq> [] \<and>
      oai_moderate openai (text_prompt topic style) = Inr False \<and>
      (\<exists>reply. oai_complete openai (text_prompt topic style) Default_params = Inr reply \<and>
         s' = s\<lparr>image_url := [], text_error := [], n_requests := n_requests s + 1,
                 post := remove_quotes (strip reply)\<rparr>) \<and>
      out = Done \<and>
      calls = [Call_moderate (text_prompt topic style),
               Call_complete (text_prompt topic style) Default_params])"
  by (auto simp: generate_text_def Let_def split: if_splits sum.splits)

lemma generate_image_cases:
  "generate_image openai prompt s = (out, s', calls) \<Longrightarrow>
   (5 \<le> n_requests s \<and> out = RateLimited \<and> calls = [] \<and>
      s' = s\<lparr>text_error :=
                ''Too many requests. Please wait a few seconds before generating another text or image.'',
              n_requests := 1\<rparr>)
   \<or> (n_requests s < 5 \<and>
      (\<exists>e. oai_complete openai (processing_prompt prompt) (Params (1 / 2) 200) = Inl e \<and>
         out = Raised e) \<and>
      calls = [Call_complete (processing_prompt prompt) (Params (1 / 2) 200)] \<and> s' = s)
   \<or> (n_requests s < 5 \<and>
      (\<exists>reply. oai_complete openai (processing_prompt prompt) (Params (1 / 2) 200) = Inr reply \<and>
         calls = [Call_complete (processing_prompt prompt) (Params (1 / 2) 200),
                  Call_image (processed_prompt reply)] \<and>
         ((\<exists>e. oai_image openai (processed_prompt reply) = Inl e \<and> out = Raised e \<and>
              s' = s\<lparr>n_requests := n_requests s + 1\<rparr>)
          \<or> (\<exists>url. oai_image openai (processed_prompt reply) = Inr url \<and> out = Done \<and>
              s' = s\<lparr>n_requests := n_requests s + 1, image_url := url\<rparr>))))"
  by (auto simp: generate_image_def Let_def split: if_splits sum.splits)

lemmas example_defs =
  client_ok_def client_flagging_def client_moderate_fails_def client_complete_fails_def
  client_image_fails_def client_plain_def init_state_def state_at_limit_def
  state_with_post_def

text \<open>
  Claim C2, as amended. The counter is raised by one on the runs that reach the end of
  the handler body, and on no run that leaves through a \<^verbatim>\<open>return\<close> (at the request
  limit it is set to 1; with an empty topic or a flagged prompt it keeps its value), nor
  on a run whose first client call raises (\<^verbatim>\<open>moderate\<close> in \<^verbatim>\<open>generate_text\<close>,
  \<^verbatim>\<open>complete\<close> in \<^verbatim>\<open>generate_image\<close>). The assignment \<^verbatim>\<open>n_requests += 1\<close>
  stands before the call of \<^verbatim>\<open>complete\<close> in \<^verbatim>\<open>generate_text\<close> (line 53) and before
  the call of \<^verbatim>\<open>image\<close> in \<^verbatim>\<open>generate_image\<close> (line 88), so a run in which that
  call raises leaves the counter raised.
\<close>

theorem request_count_by_exit:
  "(generate_text openai topic style s = (out, s', calls) \<longrightarrow>
      (out = Done \<longrightarrow> n_requests s' = n_requests s + 1) \<and>
      (out = RateLimited \<longrightarrow> n_requests s' = 1 \<and> 5 \<le> n_requests s) \<and>
      (out = EmptyTopic \<or> out = Flagged \<longrightarrow> n_requests s' = n_requests s) \<and>
      (\<forall>e. out = Raised e \<and> calls = [Call_moderate (text_prompt topic style)] \<longrightarrow>
         n_requests s' = n_requests s) \<and>
      (\<forall>e. out = Raised e \<and> Call_complete (text_prompt topic style) Default_params \<in> set calls \<longrightarrow>
         n_requests s' = n_requests s + 1))
   \<and> (generate_image openai prompt s = (out, s', calls) \<longrightarrow>
      (out = Done \<longrightarrow> n_requests s' = n_requests s + 1) \<and>
      (out = RateLimited \<longrightarrow> n_requests s' = 1 \<and> 5 \<le> n_requests s) \<and>
      (\<forall>e. out = Raised e \<and> calls = [Call_complete (processing_prompt prompt) (Params (1 / 2) 200)] \<longrightarrow>
         n_requests s' = n_requests s) \<and>
      (\<forall>e r. out = Raised e \<and> Call_image r \<in> set calls \<longrightarrow>
         n_requests s' = n_requests s + 1))"
proof -
  have t1: "generate_text openai topic style s = (out, s', calls) \<Longrightarrow>
      (out = Done \<longrightarrow> n_requests s' = n_requests s + 1) \<and>
      (out = RateLimited \<longrightarrow> n_requests s' = 1 \<and> 5 \<le> n_requests s) \<and>
      (out = EmptyTopic \<or> out = Flagged \<longrightarrow> n_requests s' = n_requests s) \<and>
      (\<forall>e. out = Raised e \<and> calls = [Call_moderate (text_prompt topic style)] \<longrightarrow>
         n_requests s' = n_requests s) \<and>
      (\<forall>e. out = Raised e \<and> Call_complete (text_prompt topic style) Default_params \<in> set calls \<longrightarrow>
         n_requests s' = n_requests s + 1)"
    by (drule generate_text_cases) auto
  have t2: "generate_image openai prompt s = (out, s', calls) \<Longrightarrow>
      (out = Done \<longrightarrow> n_requests s' = n_requests s + 1) \<and>
      (out = RateLimited \<longrightarrow> n_requests s' = 1 \<and> 5 \<le> n_requests s) \<and>
      (\<forall>e. out = Raised e \<and> calls = [Call_complete (processing_prompt prompt) (Params (1 / 2) 200)] \<longrightarrow>
         n_requests s' = n_requests s) \<and>
      (\<forall>e r. out = Raised e \<and> Call_image r \<in> set calls \<longrightarrow>
         n_requests s' = n_requests s + 1)"
    by (drule generate_image_cases) auto
  show ?thesis using t1 t2 by blast
qed



text \<open>
  The claim as it was stated fails where the last client call raises: the counter has
  been raised although the run did not succeed.
\<close>

theorem request_count_by_exit_counterexample:
  "fst (generate_text client_complete_fails ''Time Travel'' [] init_state) = Raised (ApiError ''timeout'')
   \<and> n_requests (fst (snd (generate_text client_complete_fails ''Time Travel'' [] init_state)))
       = n_requests init_state + 1
   \<and> fst (generate_image client_image_fails ''Snowflake rocks.'' init_state) = Raised (ApiError ''timeout'')
   \<and> n_requests (fst (snd (generate_image client_image_fails ''Snowflake rocks.'' init_state)))
       = n_requests init_state + 1"
  by (simp add: generate_text_def generate_image_def example_defs Let_def)

theorem request_count_by_exit_witness:
  "fst (generate_text client_ok ''Time Travel'' ''witty'' init_state) = Done
   \<and> n_requests (fst (snd (generate_text client_ok ''Time Travel'' ''witty'' init_state))) = n_requests init_state + 1
   \<and> fst (generate_text client_flagging ''Time Travel'' [] state_with_post) = Flagged
   \<and> n_requests (fst (snd (generate_text client_flagging ''Time Travel'' [] state_with_post))) = n_requests state_with_post
   \<and> fst (generate_text client_moderate_fails ''Time Travel'' [] state_with_post) = Raised (ApiError ''timeout'')
   \<and> n_requests (fst (snd (generate_text client_moderate_fails ''Time Travel'' [] state_with_post))) = n_requests state_with_post
   \<and> fst (generate_text client_ok ''Time Travel'' [] state_at_limit) = RateLimited
   \<and> n_requests (fst (snd (generate_text client_ok ''Time Travel'' [] state_at_limit))) = 1
   \<and> fst (generate_image client_ok ''Snowflake rocks.'' state_with_post) = Done
   \<and> n_requests (fst (snd (generate_image client_ok ''Snowflake rocks.'' state_with_post))) = n_requests state_with_post + 1
   \<and> fst (generate_image client_complete_fails ''Snowflake rocks.'' state_with_post) = Raised (ApiError ''timeout'')
   \<and> n_requests (fst (snd (generate_image client_complete_fails ''Snowflake rocks.'' state_with_post))) = n_requests state_with_post
   \<and> fst (generate_text client_complete_fails ''Time Travel'' [] state_with_post) = Raised (ApiError ''timeout'')
   \<and> n_requests (fst (snd (generate_text client_complete_fails ''Time Travel'' [] state_with_post))) = n_requests state_with_post + 1
   \<and> fst (generate_image client_ok ''Snowflake rocks.'' state_at_limit) = RateLimited
   \<and> n_requests (fst (snd (generate_image client_ok ''Snowflake rocks.'' state_at_limit))) = 1
   \<and> fst (generate_image client_image_fails ''Snowflake rocks.'' state_with_post) = Raised (ApiError ''timeout'')
   \<and> n_requests (fst (snd (generate_image client_image_fails ''Snowflake rocks.'' state_with_post))) = n_requests state_with_post + 1"
proof -
  let ?r1 = "generate_text client_ok ''Time Travel'' ''witty'' init_state"
  let ?r2 = "generate_text client_flagging ''Time Travel'' [] state_with_post"
  let ?r3 = "generate_text client_moderate_fails ''Time Travel'' [] state_with_post"
  let ?r4 = "generate_text client_ok ''Time Travel'' [] state_at_limit"
  let ?r5 = "generate_image client_ok ''Snowflake rocks.'' state_with_post"
  let ?r6 = "generate_image client_complete_fails ''Snowflake rocks.'' state_with_post"
  let ?r7 = "generate_text client_complete_fails ''Time Travel'' [] state_with_post"
  let ?r8 = "generate_image client_ok ''Snowflake rocks.'' state_at_limit"
  let ?r9 = "generate_image client_image_fails ''Snowflake rocks.'' state_with_post"
  have e1: "fst ?r1 = Done" by (simp add: generate_text_def example_defs Let_def)
  have e2: "fst ?r2 = Flagged" by (simp add: generate_text_def example_defs Let_def)
  have e3: "fst ?r3 = Raised (ApiError ''timeout'')
            \<and> snd (snd ?r3) = [Call_moderate (text_prompt ''Time Travel'' [])]"
    by (simp add: generate_text_def example_defs Let_def)
  have e4: "fst ?r4 = RateLimited" by (simp add: generate_text_def example_defs Let_def)
  have e5: "fst ?r5 = Done" by (simp add: generate_image_def example_defs Let_def)
  have e6: "fst ?r6 = Raised (ApiError ''timeout'')
            \<and> snd (snd ?r6) = [Call_complete (processing_prompt ''Snowflake rocks.'') (Params (1 / 2) 200)]"
    by (simp add: generate_image_def example_defs Let_def)
  have e7: "fst ?r7 = Raised (ApiError ''timeout'')
            \<and> Call_complete (text_prompt ''Time Travel'' []) Default_params \<in> set (snd (snd ?r7))"
    by (simp add: generate_text_def example_defs Let_def)
  have e8: "fst ?r8 = RateLimited" by (simp add: generate_image_def example_defs Let_def)
  have e9: "fst ?r9 = Raised (ApiError ''timeout'')
            \<and> Call_image (processed_prompt '' \"Snowflake\" rocks. Try it today. #datasuperhero '')
                  \<in> set (snd (snd ?r9))"
    by (simp add: generate_image_def example_defs Let_def)
  note t = request_count_by_exit
  have c: "fst r = out \<Longrightarrow> r = (out, fst (snd r), snd (snd r))"
    for r :: "outcome \<times> session_state \<times> call list" and out
    by (cases r) simp
  from t [of client_ok "''Time Travel''" "''witty''" init_state Done "fst (snd ?r1)" "snd (snd ?r1)"]
    c [OF e1]
  have w1: "n_requests (fst (snd ?r1)) = n_requests init_state + 1" by blast
  from t [of client_flagging "''Time Travel''" "[]" state_with_post Flagged "fst (snd ?r2)" "snd (snd ?r2)"]
    c [OF e2]
  have w2: "n_requests (fst (snd ?r2)) = n_requests state_with_post" by blast
  from t [of client_moderate_fails "''Time Travel''" "[]" state_with_post "Raised (ApiError ''timeout'')"
            "fst (snd ?r3)" "snd (snd ?r3)"]
    c [OF conjunct1 [OF e3]] conjunct2 [OF e3]
  have w3: "n_requests (fst (snd ?r3)) = n_requests state_with_post" by blast
  from t [of client_ok "''Time Travel''" "[]" state_at_limit RateLimited "fst (snd ?r4)" "snd (snd ?r4)"]
    c [OF e4]
  have w4: "n_requests (fst (snd ?r4)) = 1" by blast
  from t [of client_ok _ _ state_with_post Done "fst (snd ?r5)" "snd (snd ?r5)" "''Snowflake rocks.''"]
    c [OF e5]
  have w5: "n_requests (fst (snd ?r5)) = n_requests state_with_post + 1" by blast
  from t [of client_complete_fails _ _ state_with_post "Raised (ApiError ''timeout'')"
            "fst (snd ?r6)" "snd (snd ?r6)" "''Snowflake rocks.''"]
    c [OF conjunct1 [OF e6]] conjunct2 [OF e6]
  have w6: "n_requests (fst (snd ?r6)) = n_requests state_with_post" by blast
  from t [of client_complete_fails "''Time Travel''" "[]" state_with_post "Raised (ApiError ''timeout'')"
            "fst (snd ?r7)" "snd (snd ?r7)"]
    c [OF conjunct1 [OF e7]] conjunct2 [OF e7]
  have w7: "n_requests (fst (snd ?r7)) = n_requests state_with_post + 1" by blast
  from t [of client_ok _ _ state_at_limit RateLimited "fst (snd ?r8)" "snd (snd ?r8)" "''Snowflake rocks.''"]
    c [OF e8]
  have w8: "n_requests (fst (snd ?r8)) = 1" by blast
  from t [of client_image_fails _ _ state_with_post "Raised (ApiError ''timeout'')"
            "fst (snd ?r9)" "snd (snd ?r9)" "''Snowflake rocks.''"]
    c [OF conjunct1 [OF e9]] conjunct2 [OF e9]
  have w9: "n_requests (fst (snd ?r9)) = n_requests state_with_post + 1" by blast
  show ?thesis using e1 e2 e3 e4 e5 e6 e7 e8 e9 w1 w2 w3 w4 w5 w6 w7 w8 w9 by simp
qed

text \<open>
  Claim C3, as amended. A call of \<^verbatim>\<open>generate_text\<close> with an empty topic returns
  (it does not raise), leaves a non-empty message in \<open>text_error\<close> and calls no method of
  the client. When \<open>n_requests\<close> is below 5 on entry, it leaves through the empty-topic
  \<^verbatim>\<open>return\<close> and \<open>post\<close> is empty afterwards; when \<open>n_requests\<close> is 5 or above, the
  request limit answers first and \<open>post\<close> keeps the value it had.
\<close>

theorem empty_topic_error_state:
  "generate_text openai [] style s = (out, s', calls) \<Longrightarrow>
     (out = EmptyTopic \<or> out = RateLimited) \<and> text_error s' \<noteq> [] \<and> calls = [] \<and>
     (n_requests s < 5 \<longrightarrow>
        out = EmptyTopic \<and> post s' = [] \<and> text_error s' = ''Please enter a topic'') \<and>
     (5 \<le> n_requests s \<longrightarrow> out = RateLimited \<and> post s' = post s)"
  by (drule generate_text_cases) auto

text \<open>
  The claim as it was stated fails in a session at the request limit that holds a post:
  the post is still there after the call.
\<close>

theorem empty_topic_error_state_counterexample:
  "fst (generate_text client_ok [] ''witty'' state_at_limit) = RateLimited
   \<and> post (fst (snd (generate_text client_ok [] ''witty'' state_at_limit))) = ''Snowflake rocks.''"
  by (simp add: generate_text_def example_defs)

theorem empty_topic_error_state_witness:
  "fst (generate_text client_ok [] ''witty'' state_with_post) = EmptyTopic
   \<and> post (fst (snd (generate_text client_ok [] ''witty'' state_with_post))) = []
   \<and> text_error (fst (snd (generate_text client_ok [] ''witty'' state_with_post))) = ''Please enter a topic''
   \<and> snd (snd (generate_text client_ok [] ''witty'' state_with_post)) = []
   \<and> n_requests state_with_post < 5
   \<and> fst (generate_text client_ok [] ''witty'' state_at_limit) = RateLimited
   \<and> post (fst (snd (generate_text client_ok [] ''witty'' state_at_limit))) = post state_at_limit
   \<and> 5 \<le> n_requests state_at_limit"
proof -
  let ?r1 = "generate_text client_ok [] ''witty'' state_with_post"
  let ?r2 = "generate_text client_ok [] ''witty'' state_at_limit"
  have h1: "n_requests state_with_post < 5" and h2: "5 \<le> n_requests state_at_limit"
    by (simp_all add: example_defs)
  have r1: "?r1 = (fst ?r1, fst (snd ?r1), snd (snd ?r1))"
    and r2: "?r2 = (fst ?r2, fst (snd ?r2), snd (snd ?r2))" by simp_all
  from empty_topic_error_state [OF r1] empty_topic_error_state [OF r2] h1 h2
  show ?thesis by blast
qed

text \<open>
  Claim C5. The client calls of a run of \<^verbatim>\<open>generate_text\<close> are none, or \<^verbatim>\<open>moderate\<close>
  on the prompt, or \<^verbatim>\<open>moderate\<close> on the prompt followed by \<^verbatim>\<open>complete\<close> on the
  same prompt: \<^verbatim>\<open>complete\<close> is never called without \<^verbatim>\<open>moderate\<close> before it. When
  \<^verbatim>\<open>moderate\<close> answers that the prompt is flagged, no run calls \<^verbatim>\<open>complete\<close>,
  raises the counter or reaches the end of the body; and the run that called
  \<^verbatim>\<open>moderate\<close> ends there with a message in \<open>text_error\<close>, the counter as it was
  and \<open>post\<close> empty.
\<close>

theorem moderate_before_complete:
  "generate_text openai topic style s = (out, s', calls) \<Longrightarrow>
     (calls = []
      \<or> calls = [Call_moderate (text_prompt topic style)]
      \<or> calls = [Call_moderate (text_prompt topic style),
                  Call_complete (text_prompt topic style) Default_params])
     \<and> (oai_moderate openai (text_prompt topic style) = Inr True \<longrightarrow>
          (\<forall>p ps. Call_complete p ps \<notin> set calls) \<and> out \<noteq> Done \<and>
          n_requests s' \<le> n_requests s \<and> text_error s' \<noteq> [] \<and>
          (Call_moderate (text_prompt topic style) \<in> set calls \<longrightarrow>
             out = Flagged \<and> calls = [Call_moderate (text_prompt topic style)] \<and>
             n_requests s' = n_requests s \<and> post s' = []))"
  by (drule generate_text_cases) auto

theorem moderate_before_complete_witness:
  "oai_moderate client_flagging (text_prompt ''Time Travel'' ''witty'') = Inr True
   \<and> fst (generate_text client_flagging ''Time Travel'' ''witty'' state_with_post) = Flagged
   \<and> snd (snd (generate_text client_flagging ''Time Travel'' ''witty'' state_with_post))
       = [Call_moderate (text_prompt ''Time Travel'' ''witty'')]
   \<and> n_requests (fst (snd (generate_text client_flagging ''Time Travel'' ''witty'' state_with_post)))
       = n_requests state_with_post
   \<and> post (fst (snd (generate_text client_flagging ''Time Travel'' ''witty'' state_with_post))) = []
   \<and> text_error (fst (snd (generate_text client_flagging ''Time Travel'' ''witty'' state_with_post))) \<noteq> []"
proof -
  let ?r = "generate_text client_flagging ''Time Travel'' ''witty'' state_with_post"
  have h: "oai_moderate client_flagging (text_prompt ''Time Travel'' ''witty'') = Inr True"
    by (simp add: example_defs)
  have m: "Call_moderate (text_prompt ''Time Travel'' ''witty'') \<in> set (snd (snd ?r))"
    by (simp add: generate_text_def example_defs Let_def)
  have r: "?r = (fst ?r, fst (snd ?r), snd (snd ?r))" by simp
  from moderate_before_complete [OF r] h m show ?thesis by blast
qed

text \<open>
  Claim C9. A run of \<^verbatim>\<open>generate_text\<close> entered with \<open>n_requests\<close> below 5 assigns the
  empty string to \<open>post\<close>, \<open>image_url\<close> and \<open>text_error\<close> before it looks at the topic:
  its result is that of the run from the state with the three fields emptied,
  \<open>image_url\<close> is empty afterwards, and \<open>post\<close> is empty afterwards unless the run reached
  the end of the body; so the run with an empty topic leaves \<open>post\<close> and \<open>image_url\<close>
  empty. A run entered with \<open>n_requests\<close> at 5 or above leaves both as they were.
\<close>

theorem generate_text_clears_first:
  "generate_text openai topic style s = (out, s', calls) \<Longrightarrow>
     (n_requests s < 5 \<longrightarrow>
        generate_text openai topic style (s\<lparr>post := [], image_url := [], text_error := []\<rparr>)
          = (out, s', calls) \<and>
        image_url s' = [] \<and>
        (out \<noteq> Done \<longrightarrow> post s' = []) \<and>
        (topic = [] \<longrightarrow> out = EmptyTopic \<and> post s' = [] \<and> image_url s' = []))
     \<and> (5 \<le> n_requests s \<longrightarrow>
          out = RateLimited \<and> post s' = post s \<and> image_url s' = image_url s)"
proof -
  assume r: "generate_text openai topic style s = (out, s', calls)"
  have a: "generate_text openai topic style (s\<lparr>post := [], image_url := [], text_error := []\<rparr>)
             = generate_text openai topic style s" if "n_requests s < 5"
    using that by (simp add: generate_text_def Let_def)
  from generate_text_cases [OF r] have
    "(n_requests s < 5 \<longrightarrow> image_url s' = [] \<and> (out \<noteq> Done \<longrightarrow> post s' = []) \<and>
        (topic = [] \<longrightarrow> out = EmptyTopic \<and> post s' = [] \<and> image_url s' = []))
     \<and> (5 \<le> n_requests s \<longrightarrow>
          out = RateLimited \<and> post s' = post s \<and> image_url s' = image_url s)"
    by auto
  with a r show ?thesis by simp
qed

theorem generate_text_clears_first_witness:
  "n_requests state_with_post < 5
   \<and> post state_with_post = ''Snowflake rocks.''
   \<and> image_url state_with_post = ''https://img/0.png''
   \<and> fst (generate_text client_ok [] ''witty'' state_with_post) = EmptyTopic
   \<and> post (fst (snd (generate_text client_ok [] ''witty'' state_with_post))) = []
   \<and> image_url (fst (snd (generate_text client_ok [] ''witty'' state_with_post))) = []
   \<and> 5 \<le> n_requests state_at_limit
   \<and> fst (generate_text client_ok [] ''witty'' state_at_limit) = RateLimited
   \<and> post (fst (snd (generate_text client_ok [] ''witty'' state_at_limit))) = ''Snowflake rocks.''
   \<and> image_url (fst (snd (generate_text client_ok [] ''witty'' state_at_limit))) = ''https://img/0.png''"
proof -
  let ?r1 = "generate_text client_ok [] ''witty'' state_with_post"
  let ?r2 = "generate_text client_ok [] ''witty'' state_at_limit"
  have h: "n_requests state_with_post < 5" "5 \<le> n_requests state_at_limit"
    "post state_with_post = ''Snowflake rocks.''" "image_url state_with_post = ''https://img/0.png''"
    "post state_at_limit = ''Snowflake rocks.''" "image_url state_at_limit = ''https://img/0.png''"
    by (simp_all add: example_defs)
  have r1: "?r1 = (fst ?r1, fst (snd ?r1), snd (snd ?r1))"
    and r2: "?r2 = (fst ?r2, fst (snd ?r2), snd (snd ?r2))" by simp_all
  from generate_text_clears_first [OF r1] generate_text_clears_first [OF r2] h
  show ?thesis by (simp del: prod.collapse)
qed


subsection \<open>The field for image errors\<close>

lemma generate_text_image_error:
  "image_error (fst (snd (generate_text openai topic style s))) = image_error s"
  by (simp add: generate_text_def Let_def split: sum.splits)

lemma generate_image_image_error:
  "image_error (fst (snd (generate_image openai prompt s))) = image_error s"
  by (simp add: generate_image_def Let_def split: sum.splits)

lemma step_image_error: "image_error (snd (step e s)) = image_error s"
proof (cases e)
  case (Click_text openai topic style)
  with generate_text_image_error [of openai topic style s] show ?thesis
    by (auto split: prod.splits)
next
  case (Click_image openai prompt)
  with generate_image_image_error [of openai prompt s] show ?thesis
    by (auto split: prod.splits)
next
  case (Script_run clicked)
  then show ?thesis by simp
qed

lemma run_session_image_error: "image_error (snd (run_session es s)) = image_error s"
proof (induction es arbitrary: s)
  case Nil
  show ?case by simp
next
  case (Cons e es)
  obtain outs s1 where st: "step e s = (outs, s1)" by (cases "step e s")
  with step_image_error [of e s] have "image_error s1 = image_error s" by simp
  with Cons.IH [of s1] st show ?case by (auto split: prod.splits)
qed

text \<open>
  Claim C10. No handler assigns \<open>image_error\<close>: each of the two handlers, and each step
  of a session (a click or a run of the page script), leaves the field as it found it,
  whatever the exit. The field is empty in a fresh session and so it is empty after
  any session. At the request limit \<^verbatim>\<open>generate_image\<close> writes its message to
  \<open>text_error\<close>.
\<close>

theorem image_error_never_assigned:
  "image_error (fst (snd (generate_text openai topic style s))) = image_error s
   \<and> image_error (fst (snd (generate_image openai prompt s))) = image_error s
   \<and> image_error (snd (step e s)) = image_error s
   \<and> image_error init_state = []
   \<and> image_error (snd (run_session es init_state)) = []
   \<and> (5 \<le> n_requests s \<longrightarrow>
        fst (generate_image openai prompt s) = RateLimited \<and>
        text_error (fst (snd (generate_image openai prompt s)))
          = ''Too many requests. Please wait a few seconds before generating another text or image.'')"
proof -
  have "image_error init_state = []" by (simp add: init_state_def)
  moreover from this have "image_error (snd (run_session es init_state)) = []"
    by (simp add: run_session_image_error)
  moreover have "5 \<le> n_requests s \<longrightarrow>
        fst (generate_image openai prompt s) = RateLimited \<and>
        text_error (fst (snd (generate_image openai prompt s)))
          = ''Too many requests. Please wait a few seconds before generating another text or image.''"
    by (simp add: generate_image_limit)
  ultimately show ?thesis
    using generate_text_image_error generate_image_image_error step_image_error by blast
qed

theorem image_error_never_assigned_witness:
  "5 \<le> n_requests state_at_limit
   \<and> fst (generate_image client_ok ''Snowflake rocks.'' state_at_limit) = RateLimited
   \<and> text_error (fst (snd (generate_image client_ok ''Snowflake rocks.'' state_at_limit)))
       = ''Too many requests. Please wait a few seconds before generating another text or image.''
   \<and> image_error (fst (snd (generate_image client_ok ''Snowflake rocks.'' state_at_limit))) = []
   \<and> image_error (snd (run_session five_clicks init_state)) = []"
proof -
  have h: "5 \<le> n_requests state_at_limit" "image_error state_at_limit = []"
    by (simp_all add: example_defs)
  from image_error_never_assigned [of client_ok "[]" "[]" state_at_limit "''Snowflake rocks.''"
         "Script_run True" five_clicks] h
  show ?thesis by simp
qed


subsection \<open>The prompts\<close>

lemma re_sub_hashtags_hd:
  "re_sub_hashtags cs \<noteq> [] \<Longrightarrow> is_word (hd (re_sub_hashtags cs)) \<Longrightarrow> cs \<noteq> [] \<and> is_word (hd cs)"
proof (induction cs rule: re_sub_hashtags.induct)
  case 1
  then show ?case by simp
next
  case (2 c cs)
  show ?case
  proof (cases "c = CHR ''#'' \<and> cs \<noteq> [] \<and> is_word (hd cs)")
    case True
    with 2 have "dropWhile is_word cs \<noteq> [] \<and> is_word (hd (dropWhile is_word cs))" by simp
    with hd_dropWhile [of is_word cs] show ?thesis by blast
  next
    case False
    with 2 show ?thesis by auto
  qed
qed

lemma re_sub_hashtags_no_hashtag: "\<not> has_hashtag (re_sub_hashtags cs)"
proof (induction cs rule: re_sub_hashtags.induct)
  case 1
  show ?case by simp
next
  case (2 c cs)
  show ?case
  proof (cases "c = CHR ''#'' \<and> cs \<noteq> [] \<and> is_word (hd cs)")
    case True
    with 2 show ?thesis by simp
  next
    case False
    with 2 re_sub_hashtags_hd [of cs] show ?thesis by auto
  qed
qed

lemma has_hashtag_sublist:
  "sublist m s \<Longrightarrow> matches_hashtag m \<Longrightarrow> has_hashtag s"
proof -
  assume "sublist m s" and m: "matches_hashtag m"
  then obtain u v where s: "s = u @ m @ v" by (auto simp: sublist_def)
  from m obtain w where "m = CHR ''#'' # w" "w \<noteq> []" "list_all is_word w"
    by (auto simp: matches_hashtag_def split: list.splits)
  then obtain c w' where "m = CHR ''#'' # c # w'" "is_word c"
    by (cases w) auto
  then have "has_hashtag (u @ m @ v)" by (induction u) auto
  with s show ?thesis by simp
qed

lemma has_hashtag_imp_sublist:
  "has_hashtag s \<Longrightarrow> \<exists>m. sublist m s \<and> matches_hashtag m"
proof (induction s)
  case Nil
  then show ?case by simp
next
  case (Cons c cs)
  show ?case
  proof (cases "c = CHR ''#'' \<and> cs \<noteq> [] \<and> is_word (hd cs)")
    case True
    then have "c # cs = [] @ [CHR ''#'', hd cs] @ tl cs" by simp
    then have "sublist [CHR ''#'', hd cs] (c # cs)" unfolding sublist_def by blast
    moreover from True have "matches_hashtag [CHR ''#'', hd cs]" by (simp add: matches_hashtag_def)
    ultimately show ?thesis by blast
  next
    case False
    with Cons.prems have "has_hashtag cs" by auto
    from Cons.IH [OF this] obtain m where "sublist m cs" "matches_hashtag m" by blast
    then show ?thesis by (auto simp: sublist_Cons_right)
  qed
qed

lemma re_sub_hashtags_subseq: "subseq (re_sub_hashtags cs) cs"
proof (induction cs rule: re_sub_hashtags.induct)
  case 1
  show ?case by simp
next
  case (2 c cs)
  show ?case
  proof (cases "c = CHR ''#'' \<and> cs \<noteq> [] \<and> is_word (hd cs)")
    case True
    with 2 have "subseq (re_sub_hashtags (dropWhile is_word cs)) (dropWhile is_word cs)" by simp
    also have "subseq (dropWhile is_word cs) cs" by (rule suffix_imp_subseq [OF suffix_dropWhile])
    finally have "subseq (re_sub_hashtags (dropWhile is_word cs)) (c # cs)" by (rule list_emb_Cons)
    with True show ?thesis by simp
  next
    case False
    with 2 show ?thesis by auto
  qed
qed

lemma re_sub_hashtags_id: "\<not> has_hashtag cs \<Longrightarrow> re_sub_hashtags cs = cs"
  by (induction cs rule: re_sub_hashtags.induct) auto

lemma split_dot_first_prefix:
  "s = split_dot_first s \<or> (\<exists>rest. s = split_dot_first s @ CHR ''.'' # rest)"
proof (cases "dropWhile (\<lambda>c. c \<noteq> CHR ''.'') s")
  case Nil
  then have "split_dot_first s = s" by (simp add: split_dot_first_def dropWhile_eq_Nil_conv)
  then show ?thesis by simp
next
  case (Cons d ds)
  with hd_dropWhile [of "\<lambda>c. c \<noteq> CHR ''.''" s] have "d = CHR ''.''" by simp
  with Cons takeWhile_dropWhile_id [of "\<lambda>c. c \<noteq> CHR ''.''" s]
  have "s = split_dot_first s @ CHR ''.'' # ds" by (simp add: split_dot_first_def)
  then show ?thesis by blast
qed

lemma split_dot_first_no_dot: "CHR ''.'' \<notin> set (split_dot_first s)"
  by (auto simp: split_dot_first_def dest: set_takeWhileD)

lemma re_sub_hashtags_tag:
  assumes "w \<noteq> []" and "list_all is_word w" and "rest = [] \<or> \<not> is_word (hd rest)"
  shows "re_sub_hashtags (CHR ''#'' # w @ rest) = re_sub_hashtags rest"
proof -
  from assms(1,2) have h: "is_word (hd (w @ rest))" by (cases w) auto
  from assms(2) have "dropWhile is_word (w @ rest) = dropWhile is_word rest"
    by (simp add: list_all_iff)
  also from assms(3) have "dropWhile is_word rest = rest"
    by (simp add: dropWhile_eq_self_iff)
  finally show ?thesis using h assms(1) by simp
qed

lemma re_sub_hashtags_text_tag:
  assumes "\<not> has_hashtag u" and "w \<noteq> []" and "list_all is_word w"
    and "rest = [] \<or> \<not> is_word (hd rest)"
  shows "re_sub_hashtags (u @ CHR ''#'' # w @ rest) = u @ re_sub_hashtags rest"
  using assms(1)
proof (induction u)
  case Nil
  from re_sub_hashtags_tag [OF assms(2,3,4)] show ?case by simp
next
  case (Cons c u)
  then have "\<not> has_hashtag u" and n: "\<not> (c = CHR ''#'' \<and> u \<noteq> [] \<and> is_word (hd u))" by auto
  with Cons.IH have ih: "re_sub_hashtags (u @ CHR ''#'' # w @ rest) = u @ re_sub_hashtags rest"
    by simp
  have "\<not> (c = CHR ''#'' \<and> is_word (hd (u @ CHR ''#'' # w @ rest)))"
    using n by (cases u) (auto simp: is_word_def)
  then have "re_sub_hashtags (c # (u @ CHR ''#'' # w @ rest))
               = c # re_sub_hashtags (u @ CHR ''#'' # w @ rest)"
    by auto
  with ih show ?case by (simp del: re_sub_hashtags.simps)
qed

lemma has_hashtag_split:
  "has_hashtag s \<Longrightarrow>
     \<exists>u w rest. s = u @ CHR ''#'' # w @ rest \<and> \<not> has_hashtag u \<and> w \<noteq> [] \<and>
        list_all is_word w \<and> (rest = [] \<or> \<not> is_word (hd rest))"
proof (induction s)
  case Nil
  then show ?case by simp
next
  case (Cons c cs)
  show ?case
  proof (cases "c = CHR ''#'' \<and> cs \<noteq> [] \<and> is_word (hd cs)")
    case True
    let ?w = "takeWhile is_word cs" and ?rest = "dropWhile is_word cs"
    from True have "?w \<noteq> []" by (cases cs) auto
    moreover have "list_all is_word ?w" by (auto simp: list_all_iff dest: set_takeWhileD)
    moreover have "?rest = [] \<or> \<not> is_word (hd ?rest)" using hd_dropWhile [of is_word cs] by blast
    moreover from True have "c # cs = [] @ CHR ''#'' # ?w @ ?rest" by simp
    moreover have "\<not> has_hashtag []" by simp
    ultimately show ?thesis by blast
  next
    case False
    with Cons.prems have "has_hashtag cs" by auto
    from Cons.IH [OF this] obtain u w rest where
      s: "cs = u @ CHR ''#'' # w @ rest" and u: "\<not> has_hashtag u" and
      w: "w \<noteq> []" "list_all is_word w" "rest = [] \<or> \<not> is_word (hd rest)" by blast
    from False s have "\<not> (c = CHR ''#'' \<and> u \<noteq> [] \<and> is_word (hd u))" by (cases u) auto
    with u have "\<not> has_hashtag (c # u)" by simp
    moreover from s have "c # cs = (c # u) @ CHR ''#'' # w @ rest" by simp
    ultimately show ?thesis using w by blast
  qed
qed


text \<open>
  Claim C6, as amended. The prompt that \<^verbatim>\<open>generate_image\<close> sends to \<^verbatim>\<open>complete\<close>
  is the fixed text of lines 76 and 77 around the post text after \<^verbatim>\<open>re.sub\<close>, and
  \<^verbatim>\<open>re.sub\<close> takes out the matches of \<^verbatim>\<open>#[A-Za-z0-9_]+\<close> and nothing else: a
  text without a match is returned as it is; of a text whose first match is the
  \<^verbatim>\<open>#\<close> with the run of word characters \<open>w\<close> behind it, what stands before the
  match is kept, the match is left out, and what stands behind it is treated in the
  same way; every text is of one of the two shapes; so the result has no match left and
  keeps all other characters in their order. When \<^verbatim>\<open>image\<close> is called, it is
  called once, after \<^verbatim>\<open>complete\<close> has returned, and its argument is not a segment
  of the reply as it came: the reply is stripped of surrounding whitespace and of its
  double quotes, cut before its first full stop, and closed by a full stop.
\<close>

theorem image_prompt_from_post:
  "processing_prompt post_text =
     ''In less than 300 words create a detailed but brief description of an image that captures the essence of the following text:\<newline>''
       @ re_sub_hashtags post_text @ ''\<newline>\<newline>''
   \<and> (\<not> has_hashtag post_text \<longrightarrow> re_sub_hashtags post_text = post_text)
   \<and> (\<not> has_hashtag u \<and> w \<noteq> [] \<and> list_all is_word w \<and> (rest = [] \<or> \<not> is_word (hd rest)) \<longrightarrow>
        re_sub_hashtags (u @ CHR ''#'' # w @ rest) = u @ re_sub_hashtags rest)
   \<and> (has_hashtag post_text \<longrightarrow>
        (\<exists>u w rest. post_text = u @ CHR ''#'' # w @ rest \<and> \<not> has_hashtag u \<and> w \<noteq> [] \<and>
           list_all is_word w \<and> (rest = [] \<or> \<not> is_word (hd rest))))
   \<and> has_hashtag post_text = (\<exists>m. sublist m post_text \<and> matches_hashtag m)
   \<and> (\<forall>m. sublist m (re_sub_hashtags post_text) \<longrightarrow> \<not> matches_hashtag m)
   \<and> subseq (re_sub_hashtags post_text) post_text
   \<and> (generate_image openai post_text s = (out, s', calls) \<and> Call_image p \<in> set calls \<longrightarrow>
        (\<exists>reply. oai_complete openai (processing_prompt post_text) (Params (1 / 2) 200) = Inr reply
           \<and> calls = [Call_complete (processing_prompt post_text) (Params (1 / 2) 200), Call_image p]
           \<and> p = split_dot_first (remove_quotes (strip reply)) @ ''.''))
   \<and> CHR ''.'' \<notin> set (split_dot_first r)
   \<and> (r = split_dot_first r \<or> (\<exists>rest. r = split_dot_first r @ CHR ''.'' # rest))"
proof -
  have a: "processing_prompt post_text =
     ''In less than 300 words create a detailed but brief description of an image that captures the essence of the following text:\<newline>''
       @ re_sub_hashtags post_text @ ''\<newline>\<newline>''"
    by (simp add: processing_prompt_def)
  have b: "\<forall>m. sublist m (re_sub_hashtags post_text) \<longrightarrow> \<not> matches_hashtag m"
    using has_hashtag_sublist re_sub_hashtags_no_hashtag by blast
  have c: "has_hashtag post_text = (\<exists>m. sublist m post_text \<and> matches_hashtag m)"
    using has_hashtag_sublist has_hashtag_imp_sublist by blast
  have d: "\<not> has_hashtag u \<and> w \<noteq> [] \<and> list_all is_word w \<and> (rest = [] \<or> \<not> is_word (hd rest)) \<longrightarrow>
        re_sub_hashtags (u @ CHR ''#'' # w @ rest) = u @ re_sub_hashtags rest"
    using re_sub_hashtags_text_tag by blast
  have e: "\<exists>reply. oai_complete openai (processing_prompt post_text) (Params (1 / 2) 200) = Inr reply
           \<and> calls = [Call_complete (processing_prompt post_text) (Params (1 / 2) 200), Call_image p]
           \<and> p = split_dot_first (remove_quotes (strip reply)) @ ''.''"
    if "generate_image openai post_text s = (out, s', calls)" "Call_image p \<in> set calls"
    using generate_image_cases [OF that(1)] that(2) by (auto simp: processed_prompt_def)
  have f: "has_hashtag post_text \<longrightarrow>
        (\<exists>u w rest. post_text = u @ CHR ''#'' # w @ rest \<and> \<not> has_hashtag u \<and> w \<noteq> [] \<and>
           list_all is_word w \<and> (rest = [] \<or> \<not> is_word (hd rest)))"
    using has_hashtag_split by blast
  have g: "\<not> has_hashtag post_text \<longrightarrow> re_sub_hashtags post_text = post_text"
    using re_sub_hashtags_id by blast
  from a g d f c b re_sub_hashtags_subseq [of post_text] e split_dot_first_no_dot [of r]
    split_dot_first_prefix [of r]
  show ?thesis by (intro conjI impI) blast+
qed

text \<open>
  The claim as it was stated fails on what goes to \<^verbatim>\<open>image\<close>: the part of the
  reply before its first full stop is not what is passed, neither for a reply with
  quotes and spaces around it nor for a plain one.
\<close>

theorem image_prompt_from_post_counterexample:
  "oai_complete client_plain (processing_prompt ''Snowflake rocks.'') (Params (1 / 2) 200)
     = Inr ''A lone skier. Blue sky.''
   \<and> split_dot_first ''A lone skier. Blue sky.'' = ''A lone skier''
   \<and> snd (snd (generate_image client_plain ''Snowflake rocks.'' init_state))
       = [Call_complete (processing_prompt ''Snowflake rocks.'') (Params (1 / 2) 200),
          Call_image ''A lone skier.'']
   \<and> oai_complete client_ok (processing_prompt ''Snowflake rocks.'') (Params (1 / 2) 200)
       = Inr '' \"Snowflake\" rocks. Try it today. #datasuperhero ''
   \<and> split_dot_first '' \"Snowflake\" rocks. Try it today. #datasuperhero '' = '' \"Snowflake\" rocks''
   \<and> snd (snd (generate_image client_ok ''Snowflake rocks.'' init_state))
       = [Call_complete (processing_prompt ''Snowflake rocks.'') (Params (1 / 2) 200),
          Call_image ''Snowflake rocks.'']"
  by (simp add: generate_image_def example_defs Let_def processed_prompt_def split_dot_first_def
      remove_quotes_def strip_def is_space_def)

lemma processed_prompt_example:
  "processed_prompt '' \"Snowflake\" rocks. Try it today. #datasuperhero '' = ''Snowflake rocks.''"
  by (simp add: processed_prompt_def split_dot_first_def remove_quotes_def strip_def is_space_def)

lemma is_word_examples:
  "list_all is_word ''snow''" "\<not> is_word CHR '' ''" "\<not> has_hashtag ''Great ''"
  "\<not> has_hashtag '' news. Join us today''"
  by (simp_all add: is_word_def)

theorem image_prompt_from_post_witness:
  "\<not> has_hashtag ''Great '' \<and> list_all is_word ''snow'' \<and> \<not> is_word (hd '' news. Join us today'')
   \<and> \<not> has_hashtag '' news. Join us today''
   \<and> re_sub_hashtags ''Great #snow news. Join us today'' = ''Great  news. Join us today''
   \<and> processing_prompt ''Great #snow news. Join us today'' =
       ''In less than 300 words create a detailed but brief description of an image that captures the essence of the following text:\<newline>Great  news. Join us today\<newline>\<newline>''
   \<and> has_hashtag ''Great #snow news. Join us today''
   \<and> Call_image ''Snowflake rocks.''
       \<in> set (snd (snd (generate_image client_ok ''Great #snow news. Join us today'' init_state)))
   \<and> snd (snd (generate_image client_ok ''Great #snow news. Join us today'' init_state))
       = [Call_complete (processing_prompt ''Great #snow news. Join us today'') (Params (1 / 2) 200),
          Call_image ''Snowflake rocks.'']"
proof -
  let ?post = "''Great #snow news. Join us today''"
  let ?r = "generate_image client_ok ?post init_state"
  note h = is_word_examples
  have hd: "\<not> is_word (hd '' news. Join us today'')" using h(2) by simp
  have e2: "Call_image ''Snowflake rocks.'' \<in> set (snd (snd ?r))"
    by (simp add: generate_image_def example_defs Let_def processed_prompt_example)
  have r: "?r = (fst ?r, fst (snd ?r), snd (snd ?r))" by simp
  have hh: "has_hashtag ?post" by (simp add: is_word_def)
  note t1 = image_prompt_from_post [of ?post "''Great ''" "''snow''" "'' news. Join us today''"
      client_ok init_state "fst ?r" "fst (snd ?r)" "snd (snd ?r)" "''Snowflake rocks.''" "[]"]
  note t2 = image_prompt_from_post [of "'' news. Join us today''" "[]" "[]" "[]"
      client_ok init_state "fst ?r" "fst (snd ?r)" "snd (snd ?r)" "''Snowflake rocks.''" "[]"]
  from t2 h(4) have w2: "re_sub_hashtags '' news. Join us today'' = '' news. Join us today''"
    by blast
  from t1 h(1,3) hd have "re_sub_hashtags (''Great '' @ CHR ''#'' # ''snow'' @ '' news. Join us today'')
      = ''Great '' @ re_sub_hashtags '' news. Join us today''" by blast
  with w2 have w1: "re_sub_hashtags ?post = ''Great  news. Join us today''" by simp
  from t1 have "processing_prompt ?post =
     ''In less than 300 words create a detailed but brief description of an image that captures the essence of the following text:\<newline>''
       @ re_sub_hashtags ?post @ ''\<newline>\<newline>''" by blast
  with w1 have w3: "processing_prompt ?post =
       ''In less than 300 words create a detailed but brief description of an image that captures the essence of the following text:\<newline>Great  news. Join us today\<newline>\<newline>''"
    by simp
  from t1 r e2 have w4: "snd (snd ?r)
       = [Call_complete (processing_prompt ?post) (Params (1 / 2) 200), Call_image ''Snowflake rocks.'']"
    by blast
  from h hd w1 w3 hh e2 w4 show ?thesis by blast
qed

text \<open>
  Claim C4, as amended. The prompt is the text of line 41 with the style clause and the
  topic put in: the clause is the style followed by one space when the style is not
  empty and nothing when it is; the template has a space of its own behind the clause,
  and two line feeds and a space between the colon and \<^verbatim>\<open>include\<close>.
\<close>

theorem text_prompt_template:
  "text_prompt topic style =
     ''Write a '' @ (if style = [] then [] else style @ '' '')
       @ '' LinkedIn Post about the Snowflake data platform feature '' @ topic
       @ '':\<newline>\<newline> include the hashtags datasuperhero and masteringsnowflake''
   \<and> text_prompt topic [] =
       ''Write a  LinkedIn Post about the Snowflake data platform feature '' @ topic
         @ '':\<newline>\<newline> include the hashtags datasuperhero and masteringsnowflake''
   \<and> text_prompt ''Search Optimization'' [] =
       ''Write a  LinkedIn Post about the Snowflake data platform feature Search Optimization:\<newline>\<newline> include the hashtags datasuperhero and masteringsnowflake''
   \<and> text_prompt ''Search Optimization'' ''witty'' =
       ''Write a witty  LinkedIn Post about the Snowflake data platform feature Search Optimization:\<newline>\<newline> include the hashtags datasuperhero and masteringsnowflake''"
  by (simp add: text_prompt_def style_prompt_def)

text \<open>
  The claim as it was stated fails on both of its examples: the string it gives has one
  space where the prompt has two, and no line feeds.
\<close>

theorem text_prompt_template_counterexample:
  "text_prompt ''Search Optimization'' [] \<noteq>
     ''Write a LinkedIn Post about the Snowflake data platform feature Search Optimization: include the hashtags datasuperhero and masteringsnowflake''
   \<and> text_prompt ''Search Optimization'' ''witty'' \<noteq>
     ''Write a witty LinkedIn Post about the Snowflake data platform feature Search Optimization: include the hashtags datasuperhero and masteringsnowflake''"
  by (simp add: text_prompt_def style_prompt_def)


subsection \<open>The catalog loader\<close>










subsection \<open>The arguments of "Regenerate text"\<close>

lemma regenerate_args_lucky:
  "regenerate_args True topic style i j = Inr (t, st) \<Longrightarrow>
     i < length topic \<and> j < length style \<and> t = [topic ! i] \<and> st = [style ! j]"
  by (auto simp: regenerate_args_def random_choice_def split: if_splits)

lemma regenerate_args_fixed: "regenerate_args False topic style i j = Inr (topic, style)"
  by (simp add: regenerate_args_def)

text \<open>
  Claim C8. With \<^verbatim>\<open>feeling_lucky\<close> set, the arguments bound to "Regenerate text" are
  \<^verbatim>\<open>random.choice(topic)\<close> and \<^verbatim>\<open>random.choice(style)\<close>, where \<^verbatim>\<open>topic\<close> and
  \<^verbatim>\<open>style\<close> are the selected strings and not the catalogs: the handler gets one
  character of the selected topic and one character of the selected style. With the
  topic \<^verbatim>\<open>Time Travel\<close> and the style \<^verbatim>\<open>witty\<close> selected and both draws 0, the
  arguments are \<^verbatim>\<open>T\<close> and \<^verbatim>\<open>w\<close>, and neither is in its catalog.
\<close>

theorem regenerate_args_are_characters:
  "''Time Travel'' \<in> set [''Search Optimization'', ''Time Travel'']
   \<and> ''witty'' \<in> set [''witty'', ''formal'']
   \<and> regenerate_args True ''Time Travel'' ''witty'' 0 0 = Inr (''T'', ''w'')
   \<and> ''T'' \<notin> set [''Search Optimization'', ''Time Travel'']
   \<and> ''w'' \<notin> set [''witty'', ''formal'']
   \<and> regenerate_args False ''Time Travel'' ''witty'' 0 0 = Inr (''Time Travel'', ''witty'')"
  by (simp add: regenerate_args_def random_choice_def)


end
